theory Spec2Isabelle
  imports Main "HOL-Library.Word"
begin

section \<open>Level Zero command queue: data model\<close>

text \<open>
  The embedding follows \<^verbatim>\<open>level_zero/core/source/cmdqueue/cmdqueue.cpp\<close>. Member
  functions become functions on records that return the updated record; the two external
  collaborators (memory manager, command stream receiver) are records that log every call
  made to them, so that "which calls were made, with which arguments" is a value.
  \<^verbatim>\<open>UNRECOVERABLE_IF\<close> aborts the process and a null dereference is undefined
  behaviour: both are the \<open>Inl\<close> branch of a sum.
\<close>

datatype ze_result_t =
    ZE_RESULT_SUCCESS
  | ZE_RESULT_NOT_READY
  | ZE_RESULT_ERROR_UNINITIALIZED
  | ZE_RESULT_ERROR_OUT_OF_DEVICE_MEMORY

datatype fault = UnrecoverableError | NullDereference

datatype BUFFER_ALLOCATION = FIRST | SECOND

datatype AllocationType = COMMAND_BUFFER | OTHER_ALLOCATION_TYPE

type_synonym FlushStamp = "64 word"

type_synonym TaskCountType = "32 word"

text \<open>
  \<^verbatim>\<open>NEO::AllocationProperties\<close>, with the seven constructor arguments that
  \<^verbatim>\<open>CommandBufferManager::initialize\<close> passes, in the order it passes them.
\<close>

record AllocationProperties =
  rootDeviceIndex :: nat
  allocateMemory :: bool
  allocSize :: nat
  allocationType :: AllocationType
  multiOsContextCapable :: bool
  isMultiStorageAllocation :: bool
  subDevicesBitfield :: nat

text \<open>
  A \<^verbatim>\<open>NEO::GraphicsAllocation\<close> object. \<open>allocationId\<close> stands for the object's
  address (the identity that \<^verbatim>\<open>freeGraphicsMemory\<close> receives), \<open>contents\<close> for the
  bytes of its underlying buffer.
\<close>

record GraphicsAllocation =
  allocationId :: nat
  underlyingBuffer :: nat
  underlyingBufferSize :: nat
  contents :: "8 word list"

text \<open>
  Modelled from the spec: \<^verbatim>\<open>NEO::MemoryManager\<close>, an external collaborator whose
  sources are not in the repository's files. The spec's section 6 gives its contract:
  an allocation request returns an allocation or fails, and an allocation can be freed.
  \<open>allocationResults\<close> scripts what the next calls of
  \<^verbatim>\<open>allocateGraphicsMemoryWithProperties\<close> return (\<open>None\<close> is \<^verbatim>\<open>nullptr\<close>; an
  exhausted script returns \<^verbatim>\<open>nullptr\<close>), so every behaviour of a manager is one
  script; the other two fields log the requests and the frees.
\<close>

record MemoryManager =
  allocationResults :: "GraphicsAllocation option list"
  allocationRequests :: "AllocationProperties list"
  freedAllocations :: "nat list"

definition allocateGraphicsMemoryWithProperties ::
    "AllocationProperties \<Rightarrow> MemoryManager \<Rightarrow> GraphicsAllocation option \<times> MemoryManager" where
  "allocateGraphicsMemoryWithProperties properties mm =
     (case allocationResults mm of
        [] \<Rightarrow> (None, mm\<lparr>allocationRequests := allocationRequests mm @ [properties]\<rparr>)
      | r # rs \<Rightarrow> (r, mm\<lparr>allocationResults := rs,
                          allocationRequests := allocationRequests mm @ [properties]\<rparr>))"

definition freeGraphicsMemory :: "GraphicsAllocation \<Rightarrow> MemoryManager \<Rightarrow> MemoryManager" where
  "freeGraphicsMemory a mm = mm\<lparr>freedAllocations := freedAllocations mm @ [allocationId a]\<rparr>"

text \<open>
  The part of \<^verbatim>\<open>L0::Device\<close> that \<^verbatim>\<open>initialize\<close> reads:
  \<^verbatim>\<open>getRootDeviceIndex()\<close>, \<^verbatim>\<open>isMultiDeviceCapable()\<close> and
  \<^verbatim>\<open>getNEODevice()->getDeviceBitfield()\<close>.
\<close>

record L0_Device =
  getRootDeviceIndex :: nat
  isMultiDeviceCapable :: bool
  getDeviceBitfield :: nat

text \<open>
  \<^verbatim>\<open>CommandQueueImp::CommandBufferManager\<close>: the two buffer slots, their flush stamps
  and the slot in use. A slot holding \<open>None\<close> is a null pointer.
\<close>

record CommandBufferManager =
  buffers :: "BUFFER_ALLOCATION \<Rightarrow> GraphicsAllocation option"
  flushId :: "BUFFER_ALLOCATION \<Rightarrow> FlushStamp"
  bufferUse :: BUFFER_ALLOCATION

text \<open>
  Modelled from the spec: \<^verbatim>\<open>NEO::CommandStreamReceiver\<close>, the submission channel of
  the spec's section 6, whose sources are not in the repository's files.
  \<open>waitForFlushStampCalls\<close> and \<open>waitForCompletionCalls\<close> log the calls made,
  \<open>tagValue\<close> is the completion counter that \<^verbatim>\<open>*getTagAddress()\<close> reads, and
  \<open>completionAfterWait\<close> is the device's side of a wait: the counter's value once
  \<^verbatim>\<open>waitForCompletionWithTimeout(enableTimeout, timeoutMicroseconds, taskCount)\<close> has
  returned, as a function of the three arguments and the counter before the call.
\<close>

record CommandStreamReceiver =
  waitForFlushStampCalls :: "FlushStamp list"
  waitForCompletionCalls :: "(bool \<times> 64 word \<times> TaskCountType) list"
  tagValue :: TaskCountType
  completionAfterWait :: "bool \<Rightarrow> 64 word \<Rightarrow> TaskCountType \<Rightarrow> TaskCountType \<Rightarrow> TaskCountType"
  contextId :: nat

definition waitForFlushStamp :: "FlushStamp \<Rightarrow> CommandStreamReceiver \<Rightarrow> CommandStreamReceiver" where
  "waitForFlushStamp stamp c = c\<lparr>waitForFlushStampCalls := waitForFlushStampCalls c @ [stamp]\<rparr>"

definition waitForCompletionWithTimeout ::
    "bool \<Rightarrow> 64 word \<Rightarrow> TaskCountType \<Rightarrow> CommandStreamReceiver \<Rightarrow> CommandStreamReceiver" where
  "waitForCompletionWithTimeout enableTimeout timeoutMicroseconds taskCountToWait c =
     c\<lparr>waitForCompletionCalls :=
          waitForCompletionCalls c @ [(enableTimeout, timeoutMicroseconds, taskCountToWait)],
       tagValue := completionAfterWait c enableTimeout timeoutMicroseconds taskCountToWait (tagValue c)\<rparr>"

text \<open>
  Modelled from the spec: \<^verbatim>\<open>NEO::LinearStream\<close> (its header is not among the sources),
  the write cursor over the active buffer. \<open>getAvailableSpace\<close> is the remaining capacity,
  \<open>replaceBuffer\<close> points the cursor at the start of a new buffer of the given size. The
  class keeps \<open>sizeUsed \<le> maxAvailableSpace\<close>.
\<close>

record LinearStream =
  buffer :: nat
  maxAvailableSpace :: nat
  sizeUsed :: nat
  graphicsAllocation :: "nat option"

definition getAvailableSpace :: "LinearStream \<Rightarrow> nat" where
  "getAvailableSpace ls = maxAvailableSpace ls - sizeUsed ls"

definition replaceBuffer :: "nat \<Rightarrow> nat \<Rightarrow> LinearStream \<Rightarrow> LinearStream" where
  "replaceBuffer newBuffer newSize ls =
     ls\<lparr>buffer := newBuffer, maxAvailableSpace := newSize, sizeUsed := 0\<rparr>"

definition replaceGraphicsAllocation :: "GraphicsAllocation \<Rightarrow> LinearStream \<Rightarrow> LinearStream" where
  "replaceGraphicsAllocation a ls = ls\<lparr>graphicsAllocation := Some (allocationId a)\<rparr>"

text \<open>
  \<^verbatim>\<open>CommandQueueImp\<close>. \<open>printfFunctionContainer\<close> holds the kernels with pending printf
  output, \<open>printedOutput\<close> logs the \<^verbatim>\<open>printPrintfOutput()\<close> calls, and
  \<open>trackedAddressesPrinted\<close> logs the debugger's \<^verbatim>\<open>printTrackedAddresses\<close> calls.
  \<open>debugEnabled\<close>, \<open>l0DebuggerPresent\<close> and \<open>debuggerLogBitmask\<close> are the three operands
  of the condition guarding that call.
\<close>

record CommandQueueImp =
  csr :: "CommandStreamReceiver option"
  commandStream :: "LinearStream option"
  cmdBuffers :: CommandBufferManager
  taskCount :: TaskCountType
  internalUsage :: bool
  printfFunctionContainer :: "nat list"
  printedOutput :: "nat list"
  debugEnabled :: "bool \<Rightarrow> bool"
  l0DebuggerPresent :: bool
  debuggerLogBitmask :: int
  trackedAddressesPrinted :: "nat list"

section \<open>Level Zero command queue: operations\<close>

text \<open>
  Modelled from the spec: \<^verbatim>\<open>MemoryConstants::pageSize64k\<close> and \<^verbatim>\<open>alignUp\<close>, from
  headers that are not in the repository's files. The spec says that the requested size is
  rounded up to the platform's coarse allocation granularity; the constant's name gives
  64 KiB. \<^verbatim>\<open>alignUp(before, alignment)\<close> computes on \<^verbatim>\<open>size_t\<close>, so the sum
  \<open>before + (alignment - 1)\<close> wraps at 64 bits.
\<close>

definition pageSize64k :: nat where
  "pageSize64k = 64 * 1024"

definition alignUp :: "nat \<Rightarrow> nat \<Rightarrow> nat" where
  "alignUp before alignment =
     (((before + (alignment - 1)) mod 2 ^ 64) div alignment) * alignment"

definition memsetZero :: "GraphicsAllocation \<Rightarrow> GraphicsAllocation" where
  "memsetZero a =
     a\<lparr>contents := replicate (underlyingBufferSize a) 0
                    @ drop (underlyingBufferSize a) (contents a)\<rparr>"

definition initialize ::
    "L0_Device \<Rightarrow> nat \<Rightarrow> CommandBufferManager \<Rightarrow> MemoryManager
       \<Rightarrow> ze_result_t \<times> CommandBufferManager \<times> MemoryManager" where
  "initialize device sizeRequested m mm =
     (let alignedSize = alignUp sizeRequested pageSize64k;
          properties = \<lparr>rootDeviceIndex = getRootDeviceIndex device,
                        allocateMemory = True,
                        allocSize = alignedSize,
                        allocationType = COMMAND_BUFFER,
                        multiOsContextCapable = isMultiDeviceCapable device,
                        isMultiStorageAllocation = False,
                        subDevicesBitfield = getDeviceBitfield device\<rparr>;
          (first, mm1) = allocateGraphicsMemoryWithProperties properties mm;
          (second, mm2) = allocateGraphicsMemoryWithProperties properties mm1;
          m1 = m\<lparr>buffers := (buffers m)(FIRST := first, SECOND := second)\<rparr>
      in case first of
           None \<Rightarrow> (ZE_RESULT_ERROR_OUT_OF_DEVICE_MEMORY, m1, mm2)
         | Some a \<Rightarrow>
             (case second of
                None \<Rightarrow> (ZE_RESULT_ERROR_OUT_OF_DEVICE_MEMORY, m1, mm2)
              | Some b \<Rightarrow>
                  (ZE_RESULT_SUCCESS,
                   m1\<lparr>buffers := (buffers m1)(FIRST := Some (memsetZero a),
                                               SECOND := Some (memsetZero b)),
                      flushId := (flushId m1)(FIRST := 0, SECOND := 0)\<rparr>,
                   mm2)))"

definition destroy ::
    "CommandBufferManager \<Rightarrow> MemoryManager \<Rightarrow> CommandBufferManager \<times> MemoryManager" where
  "destroy m mm =
     (let (m1, mm1) =
            (case buffers m FIRST of
               Some a \<Rightarrow> (m\<lparr>buffers := (buffers m)(FIRST := None)\<rparr>, freeGraphicsMemory a mm)
             | None \<Rightarrow> (m, mm))
      in case buffers m1 SECOND of
           Some b \<Rightarrow> (m1\<lparr>buffers := (buffers m1)(SECOND := None)\<rparr>, freeGraphicsMemory b mm1)
         | None \<Rightarrow> (m1, mm1))"

definition switchBuffers ::
    "CommandStreamReceiver option \<Rightarrow> CommandBufferManager
       \<Rightarrow> fault + (CommandBufferManager \<times> CommandStreamReceiver option)" where
  "switchBuffers c m =
     (let m1 = (if bufferUse m = FIRST then m\<lparr>bufferUse := SECOND\<rparr>
                else m\<lparr>bufferUse := FIRST\<rparr>);
          completionId = flushId m1 (bufferUse m1)
      in if completionId \<noteq> 0
         then (case c of
                 None \<Rightarrow> Inl UnrecoverableError
               | Some r \<Rightarrow> Inr (m1, Some (waitForFlushStamp completionId r)))
         else Inr (m1, c))"

text \<open>
  Modelled from the spec: the two accessors \<^verbatim>\<open>getCurrentBufferAllocation\<close> and
  \<^verbatim>\<open>setCurrentFlushStamp\<close>, defined in a header that is not in the repository's
  files. The current allocation is the slot in use, and recording a submission stores
  the stamp for the slot in use.
\<close>

definition getCurrentBufferAllocation :: "CommandBufferManager \<Rightarrow> GraphicsAllocation option" where
  "getCurrentBufferAllocation m = buffers m (bufferUse m)"

definition setCurrentFlushStamp :: "FlushStamp \<Rightarrow> CommandBufferManager \<Rightarrow> CommandBufferManager" where
  "setCurrentFlushStamp flushStamp m = m\<lparr>flushId := (flushId m)(bufferUse m := flushStamp)\<rparr>"

text \<open>
  \<^verbatim>\<open>reserveLinearStreamSize\<close>. \<open>defaultQueueCmdBufferSize\<close> is a constant of a header
  that is not in the repository's files; it is a parameter here.
\<close>

definition reserveLinearStreamSize ::
    "nat \<Rightarrow> nat \<Rightarrow> CommandQueueImp \<Rightarrow> fault + CommandQueueImp" where
  "reserveLinearStreamSize defaultQueueCmdBufferSize size_req q =
     (case commandStream q of
        None \<Rightarrow> Inl UnrecoverableError
      | Some ls \<Rightarrow>
          if getAvailableSpace ls < size_req
          then (case switchBuffers (csr q) (cmdBuffers q) of
                  Inl e \<Rightarrow> Inl e
                | Inr (m1, c1) \<Rightarrow>
                    (case getCurrentBufferAllocation m1 of
                       None \<Rightarrow> Inl NullDereference
                     | Some nextBufferAllocation \<Rightarrow>
                         Inr (q\<lparr>csr := c1,
                                cmdBuffers := m1,
                                commandStream :=
                                  Some (replaceGraphicsAllocation nextBufferAllocation
                                         (replaceBuffer (underlyingBuffer nextBufferAllocation)
                                            defaultQueueCmdBufferSize ls))\<rparr>)))
          else Inr q)"

text \<open>
  \<^verbatim>\<open>printFunctionsPrintfOutput\<close>: every queued kernel prints once, in order, and the
  container is cleared.
\<close>

fun printAll :: "nat list \<Rightarrow> nat list \<Rightarrow> nat list" where
  "printAll [] out = out"
| "printAll (k # ks) out = printAll ks (out @ [k])"

definition printFunctionsPrintfOutput :: "CommandQueueImp \<Rightarrow> CommandQueueImp" where
  "printFunctionsPrintfOutput q =
     q\<lparr>printedOutput := printAll (printfFunctionContainer q) (printedOutput q),
       printfFunctionContainer := []\<rparr>"

text \<open>
  Modelled from the spec: \<^verbatim>\<open>NEO::TimeoutControls::maxTimeout\<close>, a constant of a
  header that is not in the repository's files; it stands for the unbounded wait and is
  the largest \<^verbatim>\<open>int64_t\<close>.
\<close>

definition maxTimeout :: "64 word" where
  "maxTimeout = 0x7FFFFFFFFFFFFFFF"

text \<open>
  \<^verbatim>\<open>synchronizeByPollingForTaskCount\<close>. The \<^verbatim>\<open>uint64_t\<close> timeout is cast to
  \<^verbatim>\<open>int64_t\<close> (the same 64 bits). The completion counter is compared with the task
  count captured before the wait.
\<close>

definition synchronizeByPollingForTaskCount ::
    "64 word \<Rightarrow> CommandQueueImp \<Rightarrow> fault + (ze_result_t \<times> CommandQueueImp)" where
  "synchronizeByPollingForTaskCount timeout q =
     (case csr q of
        None \<Rightarrow> Inl UnrecoverableError
      | Some c \<Rightarrow>
          (let taskCountToWait = taskCount q;
               enableTimeout = (timeout \<noteq> - 1);
               timeoutMicroseconds = (if timeout = - 1 then maxTimeout else timeout);
               c1 = waitForCompletionWithTimeout enableTimeout timeoutMicroseconds (taskCount q) c;
               q1 = q\<lparr>csr := Some c1\<rparr>
           in if tagValue c1 < taskCountToWait
              then Inr (ZE_RESULT_NOT_READY, q1)
              else (let q2 = printFunctionsPrintfOutput q1;
                        q3 = (if debugEnabled q2 (internalUsage q2) \<and> l0DebuggerPresent q2
                                 \<and> debuggerLogBitmask q2 \<noteq> 0
                              then q2\<lparr>trackedAddressesPrinted :=
                                        trackedAddressesPrinted q2 @ [contextId c1]\<rparr>
                              else q2)
                    in Inr (ZE_RESULT_SUCCESS, q3))))"

definition synchronize ::
    "64 word \<Rightarrow> CommandQueueImp \<Rightarrow> fault + (ze_result_t \<times> CommandQueueImp)" where
  "synchronize timeout q = synchronizeByPollingForTaskCount timeout q"

text \<open>
  The ids of the allocations in a list of slots or scripted results, null pointers left
  out.
\<close>

fun allocIds :: "GraphicsAllocation option list \<Rightarrow> nat list" where
  "allocIds [] = []"
| "allocIds (None # xs) = allocIds xs"
| "allocIds (Some a # xs) = allocationId a # allocIds xs"

text \<open>
  Sequences of calls on one \<^verbatim>\<open>CommandBufferManager\<close>, its memory manager and its
  channel. \<^verbatim>\<open>UNRECOVERABLE_IF\<close> aborts the process: the run stops in the state
  reached.
\<close>

datatype ManagerOp =
    OpInitialize L0_Device nat
  | OpDestroy
  | OpSwitchBuffers
  | OpSetCurrentFlushStamp FlushStamp

type_synonym ManagerState =
  "CommandBufferManager \<times> MemoryManager \<times> CommandStreamReceiver option"

fun stepOp :: "ManagerOp \<Rightarrow> ManagerState \<Rightarrow> fault + ManagerState" where
  "stepOp (OpInitialize device sizeRequested) (m, mm, c) =
     (case initialize device sizeRequested m mm of (res, m1, mm1) \<Rightarrow> Inr (m1, mm1, c))"
| "stepOp OpDestroy (m, mm, c) =
     (case destroy m mm of (m1, mm1) \<Rightarrow> Inr (m1, mm1, c))"
| "stepOp OpSwitchBuffers (m, mm, c) =
     (case switchBuffers c m of Inl e \<Rightarrow> Inl e | Inr (m1, c1) \<Rightarrow> Inr (m1, mm, c1))"
| "stepOp (OpSetCurrentFlushStamp stamp) (m, mm, c) =
     Inr (setCurrentFlushStamp stamp m, mm, c)"

fun runOps :: "ManagerOp list \<Rightarrow> ManagerState \<Rightarrow> ManagerState" where
  "runOps [] s = s"
| "runOps (op # ops) s = (case stepOp op s of Inl e \<Rightarrow> s | Inr s1 \<Rightarrow> runOps ops s1)"

text \<open>
  Every allocation object exists once: the ones already freed, the ones in the two slots
  and the ones the memory manager will still hand out are pairwise different objects.
\<close>

definition allocationsUnique :: "ManagerState \<Rightarrow> bool" where
  "allocationsUnique s =
     (case s of (m, mm, c) \<Rightarrow>
        distinct (freedAllocations mm @ allocIds [buffers m FIRST, buffers m SECOND]
                  @ allocIds (allocationResults mm)))"

subsection \<open>Concrete states\<close>

definition mockAllocation :: "nat \<Rightarrow> GraphicsAllocation" where
  "mockAllocation i =
     \<lparr>allocationId = i, underlyingBuffer = 4096 * i, underlyingBufferSize = 4,
      contents = [1, 2, 3, 4]\<rparr>"

definition mockDevice :: L0_Device where
  "mockDevice = \<lparr>getRootDeviceIndex = 0, isMultiDeviceCapable = False, getDeviceBitfield = 1\<rparr>"

definition scriptedMemoryManager :: "GraphicsAllocation option list \<Rightarrow> MemoryManager" where
  "scriptedMemoryManager script =
     \<lparr>allocationResults = script, allocationRequests = [], freedAllocations = []\<rparr>"

definition emptyManager :: CommandBufferManager where
  "emptyManager = \<lparr>buffers = (\<lambda>b. None), flushId = (\<lambda>b. 9), bufferUse = FIRST\<rparr>"

definition mockCsr :: "TaskCountType \<Rightarrow> CommandStreamReceiver" where
  "mockCsr tag =
     \<lparr>waitForFlushStampCalls = [], waitForCompletionCalls = [], tagValue = tag,
      completionAfterWait = (\<lambda>enableTimeout timeoutMicroseconds target current.
         if enableTimeout then current else target),
      contextId = 3\<rparr>"

definition fullStream :: LinearStream where
  "fullStream = \<lparr>buffer = 4096, maxAvailableSpace = 131072, sizeUsed = 131040,
                  graphicsAllocation = Some 1\<rparr>"

definition mockQueue :: "FlushStamp \<Rightarrow> TaskCountType \<Rightarrow> CommandQueueImp" where
  "mockQueue secondStamp tag =
     \<lparr>csr = Some (mockCsr tag),
      commandStream = Some fullStream,
      cmdBuffers = \<lparr>buffers = (\<lambda>b. if b = FIRST then Some (mockAllocation 1)
                                    else Some (mockAllocation 2)),
                    flushId = (\<lambda>b. if b = FIRST then 5 else secondStamp),
                    bufferUse = FIRST\<rparr>,
      taskCount = 10,
      internalUsage = False,
      printfFunctionContainer = [21, 22],
      printedOutput = [],
      debugEnabled = (\<lambda>internal. \<not> internal),
      l0DebuggerPresent = False,
      debuggerLogBitmask = 0,
      trackedAddressesPrinted = []\<rparr>"

section \<open>Device reference counting\<close>

text \<open>
  Modelled from the spec: the reference-counting operations of \<^verbatim>\<open>NEO::Device\<close>,
  \<^verbatim>\<open>SubDevice\<close> and \<^verbatim>\<open>ClDevice\<close> (\<^verbatim>\<open>retainApi\<close>, \<^verbatim>\<open>releaseApi\<close>,
  \<^verbatim>\<open>incRefInternal\<close>, \<^verbatim>\<open>decRefInternal\<close>). Their sources are not in the
  repository's files; only \<^verbatim>\<open>sub_device_tests.cpp\<close> exercises them. The rules are the
  ones of the spec's section 4.2: two counters per device, both non-negative; a
  sub-device keeps a non-owning reference to its root; a device whose two counters are
  both zero after a decrement is destroyed, and sub-devices are destroyed with their root.

  Devices live in a table from handles to device objects. A handle that is not in the
  table, or whose device is destroyed, is invalid; decrementing a counter that is zero is
  an underflow. Destruction sets a flag and leaves the counter fields as they are.
\<close>

datatype device_fault = InvalidDevice | RefCountUnderflow

record NEO_Device =
  rootDevice :: "nat option"
  subdevices :: "nat list"
  apiRefCount :: nat
  internalRefCount :: nat
  destroyed :: bool

type_synonym DeviceTable = "nat \<Rightarrow> NEO_Device option"

definition liveDevice :: "DeviceTable \<Rightarrow> nat \<Rightarrow> NEO_Device option" where
  "liveDevice t h =
     (case t h of None \<Rightarrow> None | Some d \<Rightarrow> if destroyed d then None else Some d)"

definition refCounts :: "DeviceTable \<Rightarrow> nat \<Rightarrow> (nat \<times> nat) option" where
  "refCounts t h =
     (case t h of None \<Rightarrow> None | Some d \<Rightarrow> Some (apiRefCount d, internalRefCount d))"

definition addInternal :: "nat \<Rightarrow> DeviceTable \<Rightarrow> device_fault + DeviceTable" where
  "addInternal h t =
     (case liveDevice t h of
        None \<Rightarrow> Inl InvalidDevice
      | Some d \<Rightarrow> Inr (t(h \<mapsto> d\<lparr>internalRefCount := internalRefCount d + 1\<rparr>)))"

definition subInternal :: "nat \<Rightarrow> DeviceTable \<Rightarrow> device_fault + DeviceTable" where
  "subInternal h t =
     (case liveDevice t h of
        None \<Rightarrow> Inl InvalidDevice
      | Some d \<Rightarrow>
          if internalRefCount d = 0 then Inl RefCountUnderflow
          else Inr (t(h \<mapsto> d\<lparr>internalRefCount := internalRefCount d - 1\<rparr>)))"

definition subApi :: "nat \<Rightarrow> DeviceTable \<Rightarrow> device_fault + DeviceTable" where
  "subApi h t =
     (case liveDevice t h of
        None \<Rightarrow> Inl InvalidDevice
      | Some d \<Rightarrow>
          if apiRefCount d = 0 then Inl RefCountUnderflow
          else Inr (t(h \<mapsto> d\<lparr>apiRefCount := apiRefCount d - 1\<rparr>)))"

fun markDestroyed :: "nat list \<Rightarrow> DeviceTable \<Rightarrow> DeviceTable" where
  "markDestroyed [] t = t"
| "markDestroyed (h # hs) t =
     markDestroyed hs (case t h of None \<Rightarrow> t | Some d \<Rightarrow> t(h \<mapsto> d\<lparr>destroyed := True\<rparr>))"

definition destroyIfUnreferenced :: "nat \<Rightarrow> DeviceTable \<Rightarrow> DeviceTable" where
  "destroyIfUnreferenced h t =
     (case liveDevice t h of
        None \<Rightarrow> t
      | Some d \<Rightarrow>
          if apiRefCount d = 0 \<and> internalRefCount d = 0
          then markDestroyed (h # subdevices d) t
          else t)"

definition incRefInternal :: "nat \<Rightarrow> DeviceTable \<Rightarrow> device_fault + DeviceTable" where
  "incRefInternal h t =
     (case liveDevice t h of
        None \<Rightarrow> Inl InvalidDevice
      | Some d \<Rightarrow>
          (case rootDevice d of
             None \<Rightarrow> addInternal h t
           | Some r \<Rightarrow> addInternal r t))"

definition decRefInternal :: "nat \<Rightarrow> DeviceTable \<Rightarrow> device_fault + DeviceTable" where
  "decRefInternal h t =
     (case liveDevice t h of
        None \<Rightarrow> Inl InvalidDevice
      | Some d \<Rightarrow>
          (let target = (case rootDevice d of None \<Rightarrow> h | Some r \<Rightarrow> r)
           in case subInternal target t of
                Inl e \<Rightarrow> Inl e
              | Inr t1 \<Rightarrow> Inr (destroyIfUnreferenced target t1)))"

definition retainApi :: "nat \<Rightarrow> DeviceTable \<Rightarrow> device_fault + DeviceTable" where
  "retainApi h t =
     (case liveDevice t h of
        None \<Rightarrow> Inl InvalidDevice
      | Some d \<Rightarrow>
          (let t1 = t(h \<mapsto> d\<lparr>apiRefCount := apiRefCount d + 1,
                               internalRefCount := internalRefCount d + 1\<rparr>)
           in case rootDevice d of
                None \<Rightarrow> Inr t1
              | Some r \<Rightarrow> addInternal r t1))"

definition releaseApi :: "nat \<Rightarrow> DeviceTable \<Rightarrow> device_fault + DeviceTable" where
  "releaseApi h t =
     (case liveDevice t h of
        None \<Rightarrow> Inl InvalidDevice
      | Some d \<Rightarrow>
          (case subApi h t of
             Inl e \<Rightarrow> Inl e
           | Inr t1 \<Rightarrow>
               (case subInternal h t1 of
                  Inl e \<Rightarrow> Inl e
                | Inr t2 \<Rightarrow>
                    (case rootDevice d of
                       None \<Rightarrow> Inr (destroyIfUnreferenced h t2)
                     | Some r \<Rightarrow>
                         (case subInternal r t2 of
                            Inl e \<Rightarrow> Inl e
                          | Inr t3 \<Rightarrow>
                              Inr (destroyIfUnreferenced r (destroyIfUnreferenced h t3)))))))"

text \<open>
  A platform as \<^verbatim>\<open>sub_device_tests.cpp\<close> builds it with
  \<^verbatim>\<open>CreateMultipleSubDevices = 2\<close>: root 0 with sub-devices 1 and 2, and a second
  root 10 of another platform.
\<close>

definition twoSubDevices :: DeviceTable where
  "twoSubDevices =
     [0 \<mapsto> \<lparr>rootDevice = None, subdevices = [1, 2], apiRefCount = 1,
             internalRefCount = 1, destroyed = False\<rparr>,
      1 \<mapsto> \<lparr>rootDevice = Some 0, subdevices = [], apiRefCount = 0,
             internalRefCount = 0, destroyed = False\<rparr>,
      2 \<mapsto> \<lparr>rootDevice = Some 0, subdevices = [], apiRefCount = 0,
             internalRefCount = 0, destroyed = False\<rparr>,
      10 \<mapsto> \<lparr>rootDevice = None, subdevices = [], apiRefCount = 1,
              internalRefCount = 1, destroyed = False\<rparr>]"

section \<open>Deferred initialization of an OS context\<close>

text \<open>
  Modelled from the spec: \<^verbatim>\<open>NEO::OsContext\<close> with
  \<^verbatim>\<open>isImmediateContextInitializationEnabled\<close> and \<^verbatim>\<open>ensureContextInitialized\<close>.
  Their sources are not in the repository's files; only \<^verbatim>\<open>os_context_tests.cpp\<close>
  calls them. The spec's section 4.1 gives the policy (an Internal-usage context and the
  default engine are always immediate, every other context is immediate unless the
  defer option is on) and the one-time initialization. The defer option
  (\<^verbatim>\<open>DebugManager.flags.DeferOsContextInitialization\<close>) is an argument.
  \<open>initializeContextCalled\<close> counts the creations of the hardware context, as the
  test's \<^verbatim>\<open>MyOsContext\<close> does.
\<close>

datatype EngineUsage = Regular | Internal | LowPriority

datatype PreemptionMode = Disabled | MidBatch | ThreadGroup | MidThread

record OsContext =
  osContextId :: nat
  deviceBitfield :: nat
  engineType :: nat
  engineUsage :: EngineUsage
  preemptionMode :: PreemptionMode
  isRootDevice :: bool
  isInitialized :: bool
  initializeContextCalled :: nat

definition OsContext_create ::
    "nat \<Rightarrow> nat \<Rightarrow> nat \<times> EngineUsage \<Rightarrow> PreemptionMode \<Rightarrow> bool \<Rightarrow> OsContext" where
  "OsContext_create ctxId bitfield typeUsage preemption rootDev =
     \<lparr>osContextId = ctxId, deviceBitfield = bitfield, engineType = fst typeUsage,
      engineUsage = snd typeUsage, preemptionMode = preemption, isRootDevice = rootDev,
      isInitialized = False, initializeContextCalled = 0\<rparr>"

definition isImmediateContextInitializationEnabled :: "bool \<Rightarrow> OsContext \<Rightarrow> bool \<Rightarrow> bool" where
  "isImmediateContextInitializationEnabled deferOsContextInitialization ctx isDefaultEngine =
     (if engineUsage ctx = Internal then True
      else if isDefaultEngine then True
      else \<not> deferOsContextInitialization)"

definition initializeContext :: "OsContext \<Rightarrow> OsContext" where
  "initializeContext ctx = ctx\<lparr>initializeContextCalled := initializeContextCalled ctx + 1\<rparr>"

definition ensureContextInitialized :: "OsContext \<Rightarrow> OsContext" where
  "ensureContextInitialized ctx =
     (if isInitialized ctx then ctx else (initializeContext ctx)\<lparr>isInitialized := True\<rparr>)"

section \<open>Buffer switch on reserve\<close>

text \<open>
  C1. A reserve request on a queue whose command stream and channel exist, and whose
  other buffer slot holds an allocation: when the stream's remaining capacity is less than
  the requested size, the manager toggles the buffer in use; the channel receives exactly
  one \<^verbatim>\<open>waitForFlushStamp\<close> call, with the stamp recorded for the newly active buffer,
  when that stamp is non-zero, and no call when it is zero; and the stream's cursor is at
  the start of the newly active buffer (its address, nothing used). When the remaining
  capacity suffices the queue is unchanged: no switch, no wait.
\<close>

theorem reserve_switches_and_waits:
  assumes "commandStream q = Some ls" and "csr q = Some c"
    and "nxt = (if bufferUse (cmdBuffers q) = FIRST then SECOND else FIRST)"
    and "buffers (cmdBuffers q) nxt = Some a"
    and "stamp = flushId (cmdBuffers q) nxt"
  shows "(getAvailableSpace ls < n \<longrightarrow>
           reserveLinearStreamSize dq n q =
             Inr (q\<lparr>csr := Some (c\<lparr>waitForFlushStampCalls :=
                                     waitForFlushStampCalls c
                                       @ (if stamp \<noteq> 0 then [stamp] else [])\<rparr>),
                    cmdBuffers := (cmdBuffers q)\<lparr>bufferUse := nxt\<rparr>,
                    commandStream := Some \<lparr>buffer = underlyingBuffer a,
                                          maxAvailableSpace = dq,
                                          sizeUsed = 0,
                                          graphicsAllocation = Some (allocationId a)\<rparr>\<rparr>))
       \<and> (\<not> getAvailableSpace ls < n \<longrightarrow> reserveLinearStreamSize dq n q = Inr q)"
  using assms
  by (auto simp: reserveLinearStreamSize_def switchBuffers_def getCurrentBufferAllocation_def
      waitForFlushStamp_def replaceBuffer_def replaceGraphicsAllocation_def Let_def)

theorem reserve_switches_and_waits_witness:
  "getAvailableSpace fullStream < 64
   \<and> reserveLinearStreamSize 131072 64 (mockQueue 7 0) =
       Inr ((mockQueue 7 0)
             \<lparr>csr := Some ((mockCsr 0)\<lparr>waitForFlushStampCalls := [7]\<rparr>),
              cmdBuffers := (cmdBuffers (mockQueue 7 0))\<lparr>bufferUse := SECOND\<rparr>,
              commandStream := Some \<lparr>buffer = 8192, maxAvailableSpace = 131072, sizeUsed = 0,
                                    graphicsAllocation = Some 2\<rparr>\<rparr>)
   \<and> reserveLinearStreamSize 131072 64 (mockQueue 0 0) =
       Inr ((mockQueue 0 0)
             \<lparr>csr := Some (mockCsr 0),
              cmdBuffers := (cmdBuffers (mockQueue 0 0))\<lparr>bufferUse := SECOND\<rparr>,
              commandStream := Some \<lparr>buffer = 8192, maxAvailableSpace = 131072, sizeUsed = 0,
                                    graphicsAllocation = Some 2\<rparr>\<rparr>)
   \<and> \<not> getAvailableSpace fullStream < 32
   \<and> reserveLinearStreamSize 131072 32 (mockQueue 7 0) = Inr (mockQueue 7 0)"
proof -
  have s: "getAvailableSpace fullStream = 32"
    by (simp add: getAvailableSpace_def fullStream_def)
  have a: "underlyingBuffer (mockAllocation 2) = 8192" "allocationId (mockAllocation 2) = 2"
    by (simp_all add: mockAllocation_def)
  have w: "(mockCsr 0)\<lparr>waitForFlushStampCalls := waitForFlushStampCalls (mockCsr 0) @ [7]\<rparr>
             = (mockCsr 0)\<lparr>waitForFlushStampCalls := [7]\<rparr>"
          "(mockCsr 0)\<lparr>waitForFlushStampCalls := waitForFlushStampCalls (mockCsr 0)\<rparr> = mockCsr 0"
    by (simp_all add: mockCsr_def)
  have h: "commandStream (mockQueue x 0) = Some fullStream"
          "csr (mockQueue x 0) = Some (mockCsr 0)"
          "SECOND = (if bufferUse (cmdBuffers (mockQueue x 0)) = FIRST then SECOND else FIRST)"
          "buffers (cmdBuffers (mockQueue x 0)) SECOND = Some (mockAllocation 2)"
          "x = flushId (cmdBuffers (mockQueue x 0)) SECOND" for x
    by (simp_all add: mockQueue_def)
  show ?thesis
    using reserve_switches_and_waits [OF h [of 7], where n = 64 and dq = 131072]
      reserve_switches_and_waits [OF h [of 0], where n = 64 and dq = 131072]
      reserve_switches_and_waits [OF h [of 7], where n = 32 and dq = 131072]
    by (simp add: s a w)
qed

section \<open>Initialization and destruction of the command buffers\<close>

lemma alignUp_rounds:
  assumes "n + 65535 < 2 ^ 64"
  shows "65536 dvd alignUp n pageSize64k \<and> n \<le> alignUp n pageSize64k
         \<and> alignUp n pageSize64k < n + 65536"
proof -
  have "n + 65535 < 18446744073709551616" using assms by simp
  then have m: "(n + 65535) mod 18446744073709551616 = n + 65535" by simp
  have a: "alignUp n pageSize64k = ((n + 65535) div 65536) * 65536"
    by (simp add: alignUp_def pageSize64k_def m)
  show ?thesis unfolding a by (auto simp: dvd_def)
qed

lemma allocate_requests:
  "allocateGraphicsMemoryWithProperties p mm = (r, mm1) \<Longrightarrow>
     allocationRequests mm1 = allocationRequests mm @ [p] \<and> freedAllocations mm1 = freedAllocations mm"
  by (auto simp: allocateGraphicsMemoryWithProperties_def split: list.splits)

lemma destroy_freed:
  "freedAllocations (snd (destroy m mm))
     = freedAllocations mm @ allocIds [buffers m FIRST, buffers m SECOND]"
  by (auto simp: destroy_def freeGraphicsMemory_def split: option.splits)

lemma destroy_slots: "buffers (fst (destroy m mm)) b = None"
  by (cases b) (auto simp: destroy_def split: option.splits)

lemma destroy_script: "allocationResults (snd (destroy m mm)) = allocationResults mm"
  by (auto simp: destroy_def freeGraphicsMemory_def split: option.splits)

lemma destroy_twice: "destroy (fst (destroy m mm)) (snd (destroy m mm)) = destroy m mm"
  by (auto simp: destroy_def freeGraphicsMemory_def split: option.splits)

lemma allocIds_Cons: "allocIds (x # xs) = allocIds [x] @ allocIds xs"
  by (cases x) auto

lemma initialize_slots:
  assumes "initialize device n m mm = (res, m1, mm1)"
  shows "freedAllocations mm1 = freedAllocations mm
       \<and> allocIds [buffers m1 FIRST, buffers m1 SECOND] @ allocIds (allocationResults mm1)
           = allocIds (allocationResults mm)"
  using assms
  by (auto simp: initialize_def Let_def allocateGraphicsMemoryWithProperties_def memsetZero_def
      split: list.splits option.splits) (metis allocIds_Cons)+

lemma step_unique:
  assumes "allocationsUnique s" and "stepOp op s = Inr s1"
  shows "allocationsUnique s1"
proof -
  obtain m mm c where s: "s = (m, mm, c)" by (cases s) auto
  show ?thesis
  proof (cases op)
    case (OpInitialize device n)
    obtain res m1 mm1 where i: "initialize device n m mm = (res, m1, mm1)"
      by (cases "initialize device n m mm") auto
    have s1: "s1 = (m1, mm1, c)" using assms(2) s OpInitialize i by simp
    have "distinct (freedAllocations mm @ allocIds (allocationResults mm))"
      using assms(1) s by (auto simp: allocationsUnique_def)
    then show ?thesis
      using initialize_slots [OF i] unfolding s1 allocationsUnique_def
      by (simp only: prod.case)
  next
    case OpDestroy
    have s1: "s1 = (fst (destroy m mm), snd (destroy m mm), c)"
      using assms(2) s OpDestroy by (simp split: prod.splits)
    show ?thesis
      using assms(1) s unfolding s1 allocationsUnique_def
      by (auto simp: destroy_freed destroy_slots destroy_script)
  next
    case OpSwitchBuffers
    then show ?thesis
      using assms s
      by (auto simp: allocationsUnique_def switchBuffers_def Let_def
          split: sum.splits if_splits option.splits)
  next
    case (OpSetCurrentFlushStamp stamp)
    then show ?thesis
      using assms s by (auto simp: allocationsUnique_def setCurrentFlushStamp_def)
  qed
qed

lemma run_unique: "allocationsUnique s \<Longrightarrow> allocationsUnique (runOps ops s)"
proof (induction ops arbitrary: s)
  case Nil
  then show ?case by simp
next
  case (Cons op ops)
  show ?case
  proof (cases "stepOp op s")
    case (Inl e)
    then show ?thesis using Cons.prems by simp
  next
    case (Inr s1)
    then show ?thesis using Cons.IH [OF step_unique [OF Cons.prems Inr]] by simp
  qed
qed

lemma triple_collapse: "x = (fst x, fst (snd x), snd (snd x))"
  by simp

lemma alignUp_multiple: "65536 dvd alignUp n pageSize64k"
  by (simp add: alignUp_def pageSize64k_def)

lemma initialize_one_then_fail:
  "initialize mockDevice 100 emptyManager (scriptedMemoryManager [Some (mockAllocation 7), None])
     = (ZE_RESULT_ERROR_OUT_OF_DEVICE_MEMORY,
        emptyManager\<lparr>buffers := (buffers emptyManager)(FIRST := Some (mockAllocation 7), SECOND := None)\<rparr>,
        \<lparr>allocationResults = [],
         allocationRequests = [\<lparr>rootDeviceIndex = 0, allocateMemory = True, allocSize = 65536,
            allocationType = COMMAND_BUFFER, multiOsContextCapable = False,
            isMultiStorageAllocation = False, subDevicesBitfield = 1\<rparr>,
            \<lparr>rootDeviceIndex = 0, allocateMemory = True, allocSize = 65536,
            allocationType = COMMAND_BUFFER, multiOsContextCapable = False,
            isMultiStorageAllocation = False, subDevicesBitfield = 1\<rparr>],
         freedAllocations = []\<rparr>)"
  by (simp add: initialize_def Let_def allocateGraphicsMemoryWithProperties_def
      scriptedMemoryManager_def mockDevice_def alignUp_def pageSize64k_def)

lemma initialize_largest_size:
  "map allocSize (allocationRequests (snd (snd
       (initialize mockDevice 18446744073709551615 emptyManager (scriptedMemoryManager [])))))
     = [0, 0]"
  by (simp add: initialize_def Let_def allocateGraphicsMemoryWithProperties_def
      scriptedMemoryManager_def mockDevice_def alignUp_def pageSize64k_def)

text \<open>
  C2, as the spec states it, fails in two places. Its release clause: when the first
  allocation is obtained and the second fails, \<^verbatim>\<open>initialize\<close> returns
  \<^verbatim>\<open>ZE_RESULT_ERROR_OUT_OF_DEVICE_MEMORY\<close>, the obtained allocation is still in slot
  \<open>FIRST\<close>, and nothing has been passed to \<^verbatim>\<open>freeGraphicsMemory\<close>. Its rounding
  clause: for the largest \<^verbatim>\<open>size_t\<close> the sum inside \<^verbatim>\<open>alignUp\<close> wraps and both
  requests ask for 0 bytes, which is not the requested size rounded up.
\<close>

theorem initialize_release_counterexample:
  "fst (initialize mockDevice 100 emptyManager
          (scriptedMemoryManager [Some (mockAllocation 7), None]))
     = ZE_RESULT_ERROR_OUT_OF_DEVICE_MEMORY
   \<and> buffers (fst (snd (initialize mockDevice 100 emptyManager
          (scriptedMemoryManager [Some (mockAllocation 7), None])))) FIRST
     = Some (mockAllocation 7)
   \<and> freedAllocations (snd (snd (initialize mockDevice 100 emptyManager
          (scriptedMemoryManager [Some (mockAllocation 7), None]))))
     = []
   \<and> map allocSize (allocationRequests (snd (snd
          (initialize mockDevice 18446744073709551615 emptyManager (scriptedMemoryManager [])))))
     = [0, 0]"
  by (simp add: initialize_one_then_fail initialize_largest_size)

text \<open>
  C2, amended. \<^verbatim>\<open>initialize\<close> makes exactly two allocation requests, with the same
  properties: type command buffer and a size that is a multiple of 64 KiB, namely the
  requested size rounded up to the next such multiple whenever the requested size is
  below the 64-bit wrap. The memory manager is left as the two requests leave it, so
  \<^verbatim>\<open>initialize\<close> releases nothing. It returns success when both requests return an
  allocation and out-of-device-memory otherwise. On success slot \<open>FIRST\<close> holds the
  allocation the first request returned and slot \<open>SECOND\<close> the one the second request
  returned, each with its underlying buffer set to zero over its whole size, both flush
  stamps are 0, and the slot in use is unchanged. On failure the manager differs from
  the one before the call only in its two slots, which hold what the two requests
  returned; a \<^verbatim>\<open>destroy\<close> on that state frees exactly the allocations that were
  obtained.
\<close>

theorem initialize_keeps_failed_allocation:
  assumes p: "p = \<lparr>rootDeviceIndex = getRootDeviceIndex device, allocateMemory = True,
                 allocSize = alignUp sizeRequested pageSize64k, allocationType = COMMAND_BUFFER,
                 multiOsContextCapable = isMultiDeviceCapable device,
                 isMultiStorageAllocation = False,
                 subDevicesBitfield = getDeviceBitfield device\<rparr>"
    and a1: "allocateGraphicsMemoryWithProperties p mm = (first, mm1)"
    and a2: "allocateGraphicsMemoryWithProperties p mm1 = (second, mm2)"
    and i: "initialize device sizeRequested m mm = (res, m', mm')"
  shows "mm' = mm2
       \<and> allocationRequests mm' = allocationRequests mm @ [p, p]
       \<and> freedAllocations mm' = freedAllocations mm
       \<and> 65536 dvd allocSize p
       \<and> (sizeRequested + 65535 < 2 ^ 64 \<longrightarrow>
            sizeRequested \<le> allocSize p \<and> allocSize p < sizeRequested + 65536)
       \<and> res = (if first \<noteq> None \<and> second \<noteq> None then ZE_RESULT_SUCCESS
                 else ZE_RESULT_ERROR_OUT_OF_DEVICE_MEMORY)
       \<and> (res = ZE_RESULT_SUCCESS \<longrightarrow>
            (\<exists>a b. first = Some a \<and> second = Some b
               \<and> m' = m\<lparr>buffers := (buffers m)
                            (FIRST := Some (a\<lparr>contents :=
                                replicate (underlyingBufferSize a) 0
                                  @ drop (underlyingBufferSize a) (contents a)\<rparr>),
                             SECOND := Some (b\<lparr>contents :=
                                replicate (underlyingBufferSize b) 0
                                  @ drop (underlyingBufferSize b) (contents b)\<rparr>)),
                          flushId := (flushId m)(FIRST := 0, SECOND := 0)\<rparr>))
       \<and> (res = ZE_RESULT_ERROR_OUT_OF_DEVICE_MEMORY \<longrightarrow>
            m' = m\<lparr>buffers := (buffers m)(FIRST := first, SECOND := second)\<rparr>
            \<and> freedAllocations (snd (destroy m' mm'))
                = freedAllocations mm @ allocIds [first, second])"
proof -
  have mm': "mm' = mm2"
    using i a1 a2 by (auto simp: initialize_def Let_def p split: option.splits)
  have req: "allocationRequests mm' = allocationRequests mm @ [p, p]"
    using allocate_requests [OF a1] allocate_requests [OF a2] mm' by simp
  have fr: "freedAllocations mm' = freedAllocations mm"
    using allocate_requests [OF a1] allocate_requests [OF a2] mm' by simp
  have mult: "65536 dvd allocSize p"
    by (simp add: p alignUp_multiple)
  have rnd: "sizeRequested + 65535 < 2 ^ 64 \<longrightarrow>
            sizeRequested \<le> allocSize p \<and> allocSize p < sizeRequested + 65536"
    using alignUp_rounds [of sizeRequested] by (simp add: p)
  have res: "res = (if first \<noteq> None \<and> second \<noteq> None then ZE_RESULT_SUCCESS
                 else ZE_RESULT_ERROR_OUT_OF_DEVICE_MEMORY)"
    using i a1 a2 by (auto simp: initialize_def Let_def p split: option.splits)
  have ok: "res = ZE_RESULT_SUCCESS \<longrightarrow>
            (\<exists>a b. first = Some a \<and> second = Some b
               \<and> m' = m\<lparr>buffers := (buffers m)
                            (FIRST := Some (a\<lparr>contents :=
                                replicate (underlyingBufferSize a) 0
                                  @ drop (underlyingBufferSize a) (contents a)\<rparr>),
                             SECOND := Some (b\<lparr>contents :=
                                replicate (underlyingBufferSize b) 0
                                  @ drop (underlyingBufferSize b) (contents b)\<rparr>)),
                          flushId := (flushId m)(FIRST := 0, SECOND := 0)\<rparr>)"
  proof
    assume s: "res = ZE_RESULT_SUCCESS"
    then obtain a b where ab: "first = Some a" "second = Some b"
      using res by (auto split: if_splits)
    have "m' = m\<lparr>buffers := (buffers m)(FIRST := Some (memsetZero a), SECOND := Some (memsetZero b)),
                   flushId := (flushId m)(FIRST := 0, SECOND := 0)\<rparr>"
      using i a1 a2 ab by (simp add: initialize_def Let_def p)
    then show "\<exists>a b. first = Some a \<and> second = Some b
               \<and> m' = m\<lparr>buffers := (buffers m)
                            (FIRST := Some (a\<lparr>contents :=
                                replicate (underlyingBufferSize a) 0
                                  @ drop (underlyingBufferSize a) (contents a)\<rparr>),
                             SECOND := Some (b\<lparr>contents :=
                                replicate (underlyingBufferSize b) 0
                                  @ drop (underlyingBufferSize b) (contents b)\<rparr>)),
                          flushId := (flushId m)(FIRST := 0, SECOND := 0)\<rparr>"
      using ab by (simp add: memsetZero_def)
  qed
  have bad: "res = ZE_RESULT_ERROR_OUT_OF_DEVICE_MEMORY \<longrightarrow>
            m' = m\<lparr>buffers := (buffers m)(FIRST := first, SECOND := second)\<rparr>
            \<and> freedAllocations (snd (destroy m' mm'))
                = freedAllocations mm @ allocIds [first, second]"
  proof
    assume f: "res = ZE_RESULT_ERROR_OUT_OF_DEVICE_MEMORY"
    then have nb: "first = None \<or> second = None"
      using res by (auto split: if_splits)
    have m': "m' = m\<lparr>buffers := (buffers m)(FIRST := first, SECOND := second)\<rparr>"
      using i a1 a2 nb by (auto simp: initialize_def Let_def p split: option.splits)
    have "freedAllocations (snd (destroy m' mm'))
            = freedAllocations mm @ allocIds [first, second]"
      by (simp add: destroy_freed fr) (simp add: m')
    then show "m' = m\<lparr>buffers := (buffers m)(FIRST := first, SECOND := second)\<rparr>
            \<and> freedAllocations (snd (destroy m' mm'))
                = freedAllocations mm @ allocIds [first, second]"
      using m' by simp
  qed
  show ?thesis using mm' req fr mult rnd res ok bad by blast
qed

theorem initialize_keeps_failed_allocation_witness:
  "(100::nat) + 65535 < 2 ^ 64
   \<and> fst (initialize mockDevice 100 emptyManager
            (scriptedMemoryManager [Some (mockAllocation 7), None]))
       = ZE_RESULT_ERROR_OUT_OF_DEVICE_MEMORY
   \<and> fst (snd (initialize mockDevice 100 emptyManager
            (scriptedMemoryManager [Some (mockAllocation 7), None])))
       = emptyManager\<lparr>buffers := (buffers emptyManager)
                          (FIRST := Some (mockAllocation 7), SECOND := None)\<rparr>
   \<and> freedAllocations (snd (destroy
         (fst (snd (initialize mockDevice 100 emptyManager
            (scriptedMemoryManager [Some (mockAllocation 7), None]))))
         (snd (snd (initialize mockDevice 100 emptyManager
            (scriptedMemoryManager [Some (mockAllocation 7), None])))))) = [7]
   \<and> fst (initialize mockDevice 100 emptyManager
            (scriptedMemoryManager [Some (mockAllocation 7), Some (mockAllocation 8)]))
       = ZE_RESULT_SUCCESS
   \<and> fst (snd (initialize mockDevice 100 emptyManager
            (scriptedMemoryManager [Some (mockAllocation 7), Some (mockAllocation 8)])))
       = emptyManager\<lparr>buffers := (buffers emptyManager)
                          (FIRST := Some ((mockAllocation 7)\<lparr>contents := [0, 0, 0, 0]\<rparr>),
                           SECOND := Some ((mockAllocation 8)\<lparr>contents := [0, 0, 0, 0]\<rparr>)),
                       flushId := (flushId emptyManager)(FIRST := 0, SECOND := 0)\<rparr>"
proof -
  have a: "allocateGraphicsMemoryWithProperties p (scriptedMemoryManager [x, y])
             = (x, \<lparr>allocationResults = [y], allocationRequests = [p], freedAllocations = []\<rparr>)"
          "allocateGraphicsMemoryWithProperties p
             \<lparr>allocationResults = [y], allocationRequests = [p], freedAllocations = []\<rparr>
             = (y, \<lparr>allocationResults = [], allocationRequests = [p, p], freedAllocations = []\<rparr>)"
    for p x y
    by (simp_all add: allocateGraphicsMemoryWithProperties_def scriptedMemoryManager_def)
  have z: "underlyingBufferSize (mockAllocation k) = 4"
          "contents (mockAllocation k) = [1, 2, 3, 4]"
          "allocationId (mockAllocation k) = k"
          "replicate 4 (0 :: 8 word) = [0, 0, 0, 0]" for k
    by (simp_all add: mockAllocation_def numeral_eq_Suc)
  show ?thesis
    using initialize_keeps_failed_allocation [OF refl a(1) a(2) triple_collapse,
        where device = mockDevice and sizeRequested = 100 and m = emptyManager
          and first = "Some (mockAllocation 7)" and second = None]
      initialize_keeps_failed_allocation [OF refl a(1) a(2) triple_collapse,
        where device = mockDevice and sizeRequested = 100 and m = emptyManager
          and first = "Some (mockAllocation 7)" and second = "Some (mockAllocation 8)"]
    by (simp add: z scriptedMemoryManager_def destroy_freed)
qed

text \<open>
  C10. \<^verbatim>\<open>destroy\<close> is idempotent: after one call both slots are null, a second call
  changes nothing and frees nothing, and one call frees exactly the allocations the two
  slots held. Over any sequence of \<^verbatim>\<open>initialize\<close>, \<^verbatim>\<open>destroy\<close>,
  \<^verbatim>\<open>switchBuffers\<close> and \<^verbatim>\<open>setCurrentFlushStamp\<close> calls, no allocation is passed
  to \<^verbatim>\<open>freeGraphicsMemory\<close> twice, provided the memory manager hands out every
  allocation object once.
\<close>

theorem destroy_idempotent:
  "(\<forall>b. buffers (fst (destroy m mm)) b = None)
   \<and> destroy (fst (destroy m mm)) (snd (destroy m mm)) = destroy m mm
   \<and> freedAllocations (snd (destroy (fst (destroy m mm)) (snd (destroy m mm))))
       = freedAllocations (snd (destroy m mm))
   \<and> freedAllocations (snd (destroy m mm))
       = freedAllocations mm @ allocIds [buffers m FIRST, buffers m SECOND]
   \<and> (allocationsUnique (m, mm, c) \<longrightarrow>
        distinct (freedAllocations (fst (snd (runOps ops (m, mm, c))))))"
proof -
  have "allocationsUnique (m, mm, c) \<longrightarrow>
        distinct (freedAllocations (fst (snd (runOps ops (m, mm, c)))))"
  proof
    assume "allocationsUnique (m, mm, c)"
    then have "allocationsUnique (runOps ops (m, mm, c))" by (rule run_unique)
    then show "distinct (freedAllocations (fst (snd (runOps ops (m, mm, c)))))"
      by (cases "runOps ops (m, mm, c)") (auto simp: allocationsUnique_def)
  qed
  then show ?thesis
    by (simp add: destroy_slots destroy_twice destroy_freed)
qed

theorem destroy_idempotent_witness:
  "allocationsUnique (emptyManager,
       scriptedMemoryManager [Some (mockAllocation 7), Some (mockAllocation 8), Some (mockAllocation 9)],
       None)
   \<and> distinct (freedAllocations (fst (snd (runOps
        [OpInitialize mockDevice 100, OpDestroy, OpDestroy, OpInitialize mockDevice 100, OpDestroy]
        (emptyManager,
         scriptedMemoryManager [Some (mockAllocation 7), Some (mockAllocation 8), Some (mockAllocation 9)],
         None)))))
   \<and> freedAllocations (fst (snd (runOps
        [OpInitialize mockDevice 100, OpDestroy, OpDestroy, OpInitialize mockDevice 100, OpDestroy]
        (emptyManager,
         scriptedMemoryManager [Some (mockAllocation 7), Some (mockAllocation 8), Some (mockAllocation 9)],
         None)))) = [7, 8, 9]"
proof -
  have v: "freedAllocations (fst (snd (runOps
        [OpInitialize mockDevice 100, OpDestroy, OpDestroy, OpInitialize mockDevice 100, OpDestroy]
        (emptyManager,
         scriptedMemoryManager [Some (mockAllocation 7), Some (mockAllocation 8), Some (mockAllocation 9)],
         None)))) = [7, 8, 9]"
    by (simp add: initialize_def destroy_def Let_def allocateGraphicsMemoryWithProperties_def
        freeGraphicsMemory_def scriptedMemoryManager_def emptyManager_def mockAllocation_def
        memsetZero_def)
  have u: "allocationsUnique (emptyManager,
       scriptedMemoryManager [Some (mockAllocation 7), Some (mockAllocation 8), Some (mockAllocation 9)],
       None)"
    by (simp add: allocationsUnique_def emptyManager_def scriptedMemoryManager_def mockAllocation_def)
  show ?thesis
    using u v destroy_idempotent [where m = emptyManager and c = None
        and mm = "scriptedMemoryManager [Some (mockAllocation 7), Some (mockAllocation 8), Some (mockAllocation 9)]"
        and ops = "[OpInitialize mockDevice 100, OpDestroy, OpDestroy, OpInitialize mockDevice 100, OpDestroy]"]
    by blast
qed

section \<open>Synchronization\<close>

lemma mockQueue_fields: "csr (mockQueue 0 t) = Some (mockCsr t)" "taskCount (mockQueue 0 t) = 10"
  by (simp_all add: mockQueue_def)

text \<open>
  C7. For every timeout value, on a queue that has a channel, \<^verbatim>\<open>synchronize\<close>
  returns \<^verbatim>\<open>ZE_RESULT_NOT_READY\<close> exactly when the completion counter read after the
  channel's wait is strictly below the task count captured at the start of the call, and
  \<^verbatim>\<open>ZE_RESULT_SUCCESS\<close> otherwise. The one wait it makes is for the queue's task
  count; its timeout is enabled exactly when the timeout argument is not the largest
  64-bit value, so a call with the infinite timeout waits with the timeout disabled.
\<close>

theorem synchronize_result:
  assumes "csr q = Some c"
    and "c1 = waitForCompletionWithTimeout (timeout \<noteq> - 1)
                (if timeout = - 1 then maxTimeout else timeout) (taskCount q) c"
  shows "\<exists>q1. synchronize timeout q =
            Inr (if tagValue c1 < taskCount q then ZE_RESULT_NOT_READY else ZE_RESULT_SUCCESS, q1)
          \<and> csr q1 = Some c1 \<and> taskCount q1 = taskCount q
          \<and> waitForCompletionCalls c1 = waitForCompletionCalls c
               @ [(timeout \<noteq> - 1, if timeout = - 1 then maxTimeout else timeout, taskCount q)]"
  using assms
  by (auto simp: synchronize_def synchronizeByPollingForTaskCount_def Let_def
      printFunctionsPrintfOutput_def waitForCompletionWithTimeout_def)

theorem synchronize_result_witness:
  "(\<exists>q1. synchronize 1000 (mockQueue 0 4) = Inr (ZE_RESULT_NOT_READY, q1)
         \<and> waitForCompletionCalls (the (csr q1)) = [(True, 1000, 10)])
   \<and> (\<exists>q1. synchronize 1000 (mockQueue 0 10) = Inr (ZE_RESULT_SUCCESS, q1))
   \<and> (\<exists>q1. synchronize (- 1) (mockQueue 0 4) = Inr (ZE_RESULT_SUCCESS, q1)
         \<and> waitForCompletionCalls (the (csr q1)) = [(False, maxTimeout, 10)])"
proof -
  have t: "tagValue (waitForCompletionWithTimeout True 1000 10 (mockCsr 4)) = 4"
          "tagValue (waitForCompletionWithTimeout True 1000 10 (mockCsr 10)) = 10"
          "tagValue (waitForCompletionWithTimeout False maxTimeout 10 (mockCsr 4)) = 10"
          "waitForCompletionCalls (mockCsr x) = []" for x
    by (simp_all add: waitForCompletionWithTimeout_def mockCsr_def)
  show ?thesis
    using synchronize_result [OF mockQueue_fields(1) [of 4] refl, where timeout = 1000]
      synchronize_result [OF mockQueue_fields(1) [of 10] refl, where timeout = 1000]
      synchronize_result [OF mockQueue_fields(1) [of 4] refl, where timeout = "- 1"]
    by (simp add: t mockQueue_fields) fastforce
qed

section \<open>Reference counts of a sub-device and its root\<close>

lemma liveDevice_Some: "liveDevice t h = Some d \<longleftrightarrow> t h = Some d \<and> \<not> destroyed d"
  by (auto simp: liveDevice_def split: option.splits)

lemma refCounts_markDestroyed: "refCounts (markDestroyed hs t) h = refCounts t h"
proof (induction hs arbitrary: t)
  case Nil
  then show ?case by simp
next
  case (Cons x xs)
  show ?case
    by (simp add: Cons.IH) (auto simp: refCounts_def split: option.splits)
qed

lemma refCounts_destroyIfUnreferenced: "refCounts (destroyIfUnreferenced x t) h = refCounts t h"
  unfolding destroyIfUnreferenced_def
  by (simp only: refCounts_markDestroyed split: option.splits if_splits) simp

lemma refCounts_upd:
  "refCounts (t(x \<mapsto> d)) h = (if h = x then Some (apiRefCount d, internalRefCount d) else refCounts t h)"
  by (simp add: refCounts_def)

lemma refCounts_live: "liveDevice t h = Some d \<Longrightarrow> refCounts t h = Some (apiRefCount d, internalRefCount d)"
  by (simp add: liveDevice_Some refCounts_def)

lemma retainApi_sub:
  assumes "liveDevice t S = Some s" and "rootDevice s = Some R"
    and "liveDevice t R = Some r" and "R \<noteq> S"
  shows "retainApi S t =
           Inr (t(S \<mapsto> s\<lparr>apiRefCount := apiRefCount s + 1,
                           internalRefCount := internalRefCount s + 1\<rparr>,
                  R \<mapsto> r\<lparr>internalRefCount := internalRefCount r + 1\<rparr>))"
  using assms by (simp add: retainApi_def addInternal_def liveDevice_def Let_def split: option.splits if_splits)

lemma releaseApi_sub:
  assumes "liveDevice t S = Some s" and "rootDevice s = Some R"
    and "liveDevice t R = Some r" and "R \<noteq> S"
    and "0 < apiRefCount s" and "0 < internalRefCount s" and "0 < internalRefCount r"
  shows "\<exists>t3. releaseApi S t = Inr t3
           \<and> refCounts t3 S = Some (apiRefCount s - 1, internalRefCount s - 1)
           \<and> refCounts t3 R = Some (apiRefCount r, internalRefCount r - 1)
           \<and> (\<forall>h. h \<noteq> S \<and> h \<noteq> R \<longrightarrow> refCounts t3 h = refCounts t h)"
proof -
  let ?s1 = "s\<lparr>apiRefCount := apiRefCount s - 1\<rparr>"
  let ?s2 = "?s1\<lparr>internalRefCount := internalRefCount s - 1\<rparr>"
  let ?r1 = "r\<lparr>internalRefCount := internalRefCount r - 1\<rparr>"
  have tS: "t S = Some s" "\<not> destroyed s" and tR: "t R = Some r" "\<not> destroyed r"
    using assms(1,3) by (simp_all add: liveDevice_Some)
  have a: "subApi S t = Inr (t(S \<mapsto> ?s1))"
    using assms(1,5) by (simp add: subApi_def)
  have b: "subInternal S (t(S \<mapsto> ?s1)) = Inr (t(S \<mapsto> ?s2))"
    using tS assms(6) by (simp add: subInternal_def liveDevice_def)
  have c: "subInternal R (t(S \<mapsto> ?s2)) = Inr (t(S \<mapsto> ?s2, R \<mapsto> ?r1))"
    using tR assms(4,7) by (simp add: subInternal_def liveDevice_def)
  have rel: "releaseApi S t =
      Inr (destroyIfUnreferenced R (destroyIfUnreferenced S (t(S \<mapsto> ?s2, R \<mapsto> ?r1))))"
    using assms(1,2) a b c by (simp add: releaseApi_def)
  show ?thesis
    unfolding rel using assms(4)
    by (simp add: refCounts_destroyIfUnreferenced refCounts_upd)
qed

lemma twoSubDevices_live:
  "liveDevice twoSubDevices 2 =
     Some \<lparr>rootDevice = Some 0, subdevices = [], apiRefCount = 0, internalRefCount = 0,
           destroyed = False\<rparr>"
  "liveDevice twoSubDevices 0 =
     Some \<lparr>rootDevice = None, subdevices = [1, 2], apiRefCount = 1, internalRefCount = 1,
           destroyed = False\<rparr>"
  "refCounts twoSubDevices 10 = Some (1, 1)"
  by (simp_all add: liveDevice_def refCounts_def twoSubDevices_def)

text \<open>
  C3. For a live sub-device \<open>S\<close> whose root \<open>R\<close> is a live device other than \<open>S\<close>:
  \<^verbatim>\<open>retainApi\<close> on \<open>S\<close> succeeds and adds 1 to the API count of \<open>S\<close>, to the internal
  count of \<open>S\<close> and to the internal count of \<open>R\<close>; the API count of \<open>R\<close> and both counts
  of every other device (a second root among them) are unchanged. \<^verbatim>\<open>releaseApi\<close> on
  \<open>S\<close> afterwards succeeds and takes 1 from the same three counters, so that every
  counter of every device is back at its value before the retain.
\<close>

theorem subdevice_retain_release:
  assumes "liveDevice t S = Some s" and "rootDevice s = Some R"
    and "liveDevice t R = Some r" and "R \<noteq> S"
  shows "\<exists>t1 t2. retainApi S t = Inr t1 \<and> releaseApi S t1 = Inr t2
           \<and> refCounts t1 S = Some (apiRefCount s + 1, internalRefCount s + 1)
           \<and> refCounts t1 R = Some (apiRefCount r, internalRefCount r + 1)
           \<and> (\<forall>h. h \<noteq> S \<and> h \<noteq> R \<longrightarrow> refCounts t1 h = refCounts t h)
           \<and> refCounts t2 S = Some (apiRefCount s, internalRefCount s)
           \<and> refCounts t2 R = Some (apiRefCount r, internalRefCount r)
           \<and> (\<forall>h. refCounts t2 h = refCounts t h)"
proof -
  let ?s1 = "s\<lparr>apiRefCount := apiRefCount s + 1, internalRefCount := internalRefCount s + 1\<rparr>"
  let ?r1 = "r\<lparr>internalRefCount := internalRefCount r + 1\<rparr>"
  let ?t1 = "t(S \<mapsto> ?s1, R \<mapsto> ?r1)"
  have tS: "t S = Some s" "\<not> destroyed s" and tR: "t R = Some r" "\<not> destroyed r"
    using assms(1,3) by (simp_all add: liveDevice_Some)
  have ret: "retainApi S t = Inr ?t1"
    by (rule retainApi_sub [OF assms])
  have l1: "liveDevice ?t1 S = Some ?s1" "liveDevice ?t1 R = Some ?r1"
    using assms(4) tS tR by (simp_all add: liveDevice_def)
  obtain t2 where t2: "releaseApi S ?t1 = Inr t2"
      "refCounts t2 S = Some (apiRefCount ?s1 - 1, internalRefCount ?s1 - 1)"
      "refCounts t2 R = Some (apiRefCount ?r1, internalRefCount ?r1 - 1)"
      "\<forall>h. h \<noteq> S \<and> h \<noteq> R \<longrightarrow> refCounts t2 h = refCounts ?t1 h"
    using releaseApi_sub [OF l1(1) _ l1(2) assms(4)] assms(2) by auto
  have c1: "refCounts ?t1 S = Some (apiRefCount s + 1, internalRefCount s + 1)"
           "refCounts ?t1 R = Some (apiRefCount r, internalRefCount r + 1)"
           "\<forall>h. h \<noteq> S \<and> h \<noteq> R \<longrightarrow> refCounts ?t1 h = refCounts t h"
    using assms(4) by (simp_all add: refCounts_upd)
  have c2: "refCounts t2 S = Some (apiRefCount s, internalRefCount s)"
           "refCounts t2 R = Some (apiRefCount r, internalRefCount r)"
    using t2(2,3) by simp_all
  have "refCounts t2 h = refCounts t h" for h
  proof (cases "h = S \<or> h = R")
    case True
    then show ?thesis
      using c2 refCounts_live [OF assms(1)] refCounts_live [OF assms(3)] by auto
  next
    case False
    then show ?thesis using t2(4) c1(3) by simp
  qed
  then show ?thesis using ret t2(1) c1 c2 by blast
qed

theorem subdevice_retain_release_witness:
  "\<exists>t1 t2. retainApi 2 twoSubDevices = Inr t1 \<and> releaseApi 2 t1 = Inr t2
      \<and> refCounts t1 2 = Some (1, 1) \<and> refCounts t1 0 = Some (1, 2)
      \<and> refCounts t1 10 = Some (1, 1)
      \<and> refCounts t2 2 = Some (0, 0) \<and> refCounts t2 0 = Some (1, 1)
      \<and> refCounts t2 10 = Some (1, 1)"
proof -
  obtain t1 t2 where r: "retainApi 2 twoSubDevices = Inr t1" "releaseApi 2 t1 = Inr t2"
      "refCounts t1 2 = Some (0 + 1, 0 + 1)" "refCounts t1 0 = Some (1, 1 + 1)"
      "\<forall>h. h \<noteq> 2 \<and> h \<noteq> 0 \<longrightarrow> refCounts t1 h = refCounts twoSubDevices h"
      "refCounts t2 2 = Some (0, 0)" "refCounts t2 0 = Some (1, 1)"
      "\<forall>h. refCounts t2 h = refCounts twoSubDevices h"
    using subdevice_retain_release [OF twoSubDevices_live(1) _ twoSubDevices_live(2)]
    by auto
  have "refCounts t1 10 = Some (1, 1)" "refCounts t2 10 = Some (1, 1)"
    using r(5,8) twoSubDevices_live(3) by simp_all
  then show ?thesis using r by simp
qed

text \<open>
  C8. For a live sub-device \<open>S\<close> whose root \<open>R\<close> is a live device other than \<open>S\<close>:
  \<^verbatim>\<open>incRefInternal\<close> on \<open>S\<close> adds 1 to the internal count of \<open>R\<close> and leaves the
  counts of \<open>S\<close> (and of every device but \<open>R\<close>) unchanged; \<^verbatim>\<open>decRefInternal\<close> on \<open>S\<close>,
  when the internal count of \<open>R\<close> is positive, takes 1 from the internal count of \<open>R\<close> and
  leaves the counts of \<open>S\<close> (and of every device but \<open>R\<close>) unchanged.
\<close>

theorem subdevice_internal_delegates:
  assumes "liveDevice t S = Some s" and "rootDevice s = Some R"
    and "liveDevice t R = Some r" and "R \<noteq> S"
  shows "(\<exists>t1. incRefInternal S t = Inr t1
             \<and> refCounts t1 R = Some (apiRefCount r, internalRefCount r + 1)
             \<and> refCounts t1 S = Some (apiRefCount s, internalRefCount s)
             \<and> (\<forall>h. h \<noteq> R \<longrightarrow> refCounts t1 h = refCounts t h))
       \<and> (0 < internalRefCount r \<longrightarrow>
            (\<exists>t2. decRefInternal S t = Inr t2
               \<and> refCounts t2 R = Some (apiRefCount r, internalRefCount r - 1)
               \<and> refCounts t2 S = Some (apiRefCount s, internalRefCount s)
               \<and> (\<forall>h. h \<noteq> R \<longrightarrow> refCounts t2 h = refCounts t h)))"
proof -
  have cS: "refCounts t S = Some (apiRefCount s, internalRefCount s)"
    by (rule refCounts_live [OF assms(1)])
  have inc: "incRefInternal S t = Inr (t(R \<mapsto> r\<lparr>internalRefCount := internalRefCount r + 1\<rparr>))"
    using assms by (simp add: incRefInternal_def addInternal_def)
  have dec: "decRefInternal S t =
      Inr (destroyIfUnreferenced R (t(R \<mapsto> r\<lparr>internalRefCount := internalRefCount r - 1\<rparr>)))"
    if "0 < internalRefCount r"
    using assms that by (simp add: decRefInternal_def subInternal_def)
  show ?thesis
    using inc dec cS assms(4)
    by (auto simp: refCounts_destroyIfUnreferenced refCounts_upd)
qed

theorem subdevice_internal_delegates_witness:
  "(\<exists>t1. incRefInternal 2 twoSubDevices = Inr t1
       \<and> refCounts t1 0 = Some (1, 2) \<and> refCounts t1 2 = Some (0, 0))
   \<and> (\<exists>t2. decRefInternal 2 twoSubDevices = Inr t2
       \<and> refCounts t2 0 = Some (1, 0) \<and> refCounts t2 2 = Some (0, 0))"
  using subdevice_internal_delegates [OF twoSubDevices_live(1) _ twoSubDevices_live(2)]
  by auto

section \<open>Policy and one-time initialization of an OS context\<close>

text \<open>
  C6. The policy function answers immediate for every Internal-usage context and for the
  default engine, whatever the defer option; for a Regular-usage context that is not the
  default engine it answers immediate exactly when the defer option is off. A created
  context is uninitialized; calling \<^verbatim>\<open>ensureContextInitialized\<close> once or twice on it
  creates the hardware context exactly once. For every context the second call changes
  nothing, and two calls create the hardware context once when the context was
  uninitialized and not at all when it was initialized.
\<close>

theorem context_initialization_policy:
  "(engineUsage ctx = Internal \<longrightarrow> isImmediateContextInitializationEnabled deferOn ctx isDefault)
   \<and> isImmediateContextInitializationEnabled deferOn ctx True
   \<and> (engineUsage ctx = Regular \<longrightarrow>
        isImmediateContextInitializationEnabled deferOn ctx False = (\<not> deferOn))
   \<and> \<not> isInitialized (OsContext_create ctxId bitfield typeUsage preemption rootDev)
   \<and> initializeContextCalled (ensureContextInitialized (OsContext_create ctxId bitfield typeUsage preemption rootDev)) = 1
   \<and> initializeContextCalled
        (ensureContextInitialized (ensureContextInitialized (OsContext_create ctxId bitfield typeUsage preemption rootDev))) = 1
   \<and> isInitialized (ensureContextInitialized ctx)
   \<and> ensureContextInitialized (ensureContextInitialized ctx) = ensureContextInitialized ctx
   \<and> initializeContextCalled (ensureContextInitialized (ensureContextInitialized ctx))
       = initializeContextCalled ctx + (if isInitialized ctx then 0 else 1)"
  by (simp add: isImmediateContextInitializationEnabled_def ensureContextInitialized_def
      initializeContext_def OsContext_create_def)

theorem context_initialization_policy_witness:
  "isImmediateContextInitializationEnabled True (OsContext_create 0 0 (0, Internal) Disabled False) False
   \<and> isImmediateContextInitializationEnabled True (OsContext_create 0 0 (0, Regular) Disabled False) True
   \<and> \<not> isImmediateContextInitializationEnabled True (OsContext_create 0 0 (0, Regular) Disabled False) False
   \<and> isImmediateContextInitializationEnabled False (OsContext_create 0 0 (0, Regular) Disabled False) False
   \<and> initializeContextCalled (ensureContextInitialized (ensureContextInitialized
        (OsContext_create 0 0 (0, Regular) Disabled False))) = 1"
proof -
  have u: "engineUsage (OsContext_create 0 0 (0, x) Disabled False) = x" for x
    by (simp add: OsContext_create_def)
  show ?thesis
    using context_initialization_policy
        [where ctx = "OsContext_create 0 0 (0, Internal) Disabled False" and deferOn = True
           and isDefault = False]
      context_initialization_policy
        [where ctx = "OsContext_create 0 0 (0, Regular) Disabled False" and deferOn = True
           and ctxId = 0 and bitfield = 0 and typeUsage = "(0, Regular)"
           and preemption = Disabled and rootDev = False]
      context_initialization_policy
        [where ctx = "OsContext_create 0 0 (0, Regular) Disabled False" and deferOn = False]
    by (simp add: u)
qed

end
